theory Spec2Isabelle
  imports Main "HOL-Library.Sublist"
begin

section \<open>The planner bridge of router-bridge\<close>

text \<open>
  The bridge is the module that exports \<open>plan\<close>, \<open>create\<close> and \<open>plan2\<close>, and
  the two invocation scripts \<open>planner_create.ts\<close> and \<open>planner_plan.ts\<close> that the host
  runs inside its JavaScript engine. Everything the module calls (\<open>buildSchema\<close>,
  \<open>parse\<close>, \<open>validate\<close>, \<open>operationFromDocument\<close>, the \<open>QueryPlanner\<close> class) lives in
  the graphql and Apollo packages, outside the repository, and is a parameter of the model.
\<close>

subsection \<open>Values\<close>

text \<open>
  A thrown or reported error is either the engine's own \<open>TypeError\<close> (reading a property
  of \<open>undefined\<close>) or a value \<open>'e\<close> made by a library. The bridge never inspects it.
\<close>

datatype 'e js_error = TypeError string | Thrown 'e

text \<open>
  \<open>ExecutionResult<QueryPlan>\<close> of graphql: both members are optional; \<open>None\<close> is
  a member that the object literal does not have.
\<close>

record ('qp, 'e) ExecutionResult =
  errors :: "'e js_error list option"
  data :: "'qp option"

text \<open>
  \<open>OperationResult\<close>, the envelope handed to \<open>done\<close>: an object with an \<open>Ok\<close> or an
  \<open>Err\<close> member. \<open>None\<close> is a member that is missing or \<open>undefined\<close>; the payload of
  \<open>Ok\<close> is \<open>null\<close> (Create) or a query plan (Plan).
\<close>

datatype 'qp ok_payload = Null | Plan 'qp

record ('qp, 'e) OperationResult =
  Ok :: "'qp ok_payload option"
  Err :: "'e js_error list option"

subsection \<open>The libraries\<close>

text \<open>
  The library functions the bridge calls, each returning \<open>Inl e\<close> when it throws \<open>e\<close>.
  The module globals may be \<open>undefined\<close> when they are passed on, so the parameters they
  reach are options. \<open>toAPISchema\<close> and \<open>toGraphQLJSSchema\<close> are methods, taken with
  their receiver; \<open>newQueryPlanner\<close> is the constructor \<open>new QueryPlanner(...)\<close>;
  \<open>buildQueryPlan\<close> is the planner's method. They are functions of their arguments:
  the planning library is a deterministic black box.
\<close>

record ('cs, 'api, 'gs, 'doc, 'op, 'pl, 'qp, 'e) library =
  buildSchema :: "string \<Rightarrow> 'e js_error + 'cs"
  toAPISchema :: "'cs \<Rightarrow> 'e js_error + 'api"
  toGraphQLJSSchema :: "'api \<Rightarrow> 'e js_error + 'gs"
  parse :: "string \<Rightarrow> 'e js_error + 'doc"
  validate :: "'gs option \<Rightarrow> 'doc \<Rightarrow> 'e js_error + 'e js_error list"
  operationFromDocument :: "'cs option \<Rightarrow> 'doc \<Rightarrow> string option \<Rightarrow> 'e js_error + 'op"
  newQueryPlanner :: "'cs option \<Rightarrow> 'e js_error + 'pl"
  buildQueryPlan :: "'pl \<Rightarrow> 'op \<Rightarrow> 'e js_error + 'qp"

datatype lib_call =
  BuildSchema | ToAPISchema | ToGraphQLJSSchema | Parse | Validate
  | OperationFromDocument | NewQueryPlanner | BuildQueryPlan

subsection \<open>The runtime\<close>

text \<open>
  The state of one engine instance: the three module globals (\<open>let SCHEMA\<close>,
  \<open>let COMPOSED_SCHEMA\<close>, \<open>let PLANNER\<close>, declared without an initialiser, so
  \<open>undefined\<close> = \<open>None\<close> until assigned), the log of the library calls made so far
  (oldest first) and the envelopes the host's \<open>done\<close> has received (oldest first).
\<close>

record ('cs, 'gs, 'pl, 'qp, 'e) runtime =
  SCHEMA :: "'gs option"
  COMPOSED_SCHEMA :: "'cs option"
  PLANNER :: "'pl option"
  calls :: "lib_call list"
  delivered :: "('qp, 'e) OperationResult list"

definition session :: "('cs, 'gs, 'pl, 'qp, 'e) runtime \<Rightarrow> 'gs option \<times> 'cs option \<times> 'pl option" where
  "session s = (SCHEMA s, COMPOSED_SCHEMA s, PLANNER s)"

definition fresh :: "('cs, 'gs, 'pl, 'qp, 'e) runtime" where
  "fresh = \<lparr>SCHEMA = None, COMPOSED_SCHEMA = None, PLANNER = None, calls = [], delivered = []\<rparr>"

subsection \<open>Statements that may throw\<close>

text \<open>
  A piece of JavaScript run from a state ends in a new state and either a value
  (\<open>Inr\<close>) or a thrown error (\<open>Inl\<close>).
\<close>

type_synonym ('a, 'e, 's) js = "'s \<Rightarrow> ('e js_error + 'a) \<times> 's"

definition returns :: "'a \<Rightarrow> ('a, 'e, 's) js" where
  "returns v s = (Inr v, s)"

definition throws :: "'e js_error \<Rightarrow> ('a, 'e, 's) js" where
  "throws e s = (Inl e, s)"

definition andThen :: "('a, 'e, 's) js \<Rightarrow> ('a \<Rightarrow> ('b, 'e, 's) js) \<Rightarrow> ('b, 'e, 's) js" where
  "andThen m f s = (case m s of (Inl e, s') \<Rightarrow> (Inl e, s') | (Inr v, s') \<Rightarrow> f v s')"

definition try_catch :: "('a, 'e, 's) js \<Rightarrow> ('e js_error \<Rightarrow> ('a, 'e, 's) js) \<Rightarrow> ('a, 'e, 's) js" where
  "try_catch body handler s =
     (case body s of (Inl e, s') \<Rightarrow> handler e s' | (Inr v, s') \<Rightarrow> (Inr v, s'))"

text \<open>A library call: its outcome, logged.\<close>

definition call ::
  "lib_call \<Rightarrow> 'e js_error + 'a \<Rightarrow> ('a, 'e, ('cs, 'gs, 'pl, 'qp, 'e) runtime) js" where
  "call c r s = (r, s\<lparr>calls := calls s @ [c]\<rparr>)"

text \<open>\<open>x.m\<close>: the engine throws a \<open>TypeError\<close> when \<open>x\<close> is \<open>undefined\<close>.\<close>

text \<open>
  The message of that \<open>TypeError\<close>, the property name between single quotes
  (character \<open>0x27\<close>).
\<close>

definition cannot_read :: "string \<Rightarrow> string" where
  "cannot_read m =
     ''Cannot read properties of undefined (reading '' @ [CHR 0x27] @ m @ [CHR 0x27] @ '')''"

definition member :: "'a option \<Rightarrow> string \<Rightarrow> ('a, 'e, 's) js" where
  "member x m =
     (case x of
        None \<Rightarrow> throws (TypeError (cannot_read m))
      | Some v \<Rightarrow> returns v)"

text \<open>
  The host's completion callback \<open>done\<close> (only declared in the scripts): it receives the
  envelope, and \<open>dn\<close> says whether the host's function then throws (\<open>Some e\<close>) or returns.
\<close>

definition done_cb ::
  "(('qp, 'e) OperationResult \<Rightarrow> 'e js_error option) \<Rightarrow> ('qp, 'e) OperationResult
     \<Rightarrow> (unit, 'e, ('cs, 'gs, 'pl, 'qp, 'e) runtime) js" where
  "done_cb dn operationResult s =
     ((case dn operationResult of None \<Rightarrow> Inr () | Some e \<Rightarrow> Inl e),
      s\<lparr>delivered := delivered s @ [operationResult]\<rparr>)"

subsection \<open>The module: plan, create, plan2\<close>

text \<open>
  \<open>plan\<close>, the one-shot form. The whole body stands in \<open>try\<close>; the \<open>catch\<close> clause
  returns the thrown value as a one-element \<open>errors\<close> list. Schema and planner are
  \<open>const\<close> locals; the query is parsed before \<open>toGraphQLJSSchema\<close> is called, and the
  planner is constructed after the operation has been resolved.
\<close>

definition plan ::
  "('cs, 'api, 'gs, 'doc, 'op, 'pl, 'qp, 'e) library \<Rightarrow> string \<Rightarrow> string \<Rightarrow> string option
     \<Rightarrow> (('qp, 'e) ExecutionResult, 'e, ('cs, 'gs, 'pl, 'qp, 'e) runtime) js" where
  "plan L schemaString operationString operationName =
     try_catch
       (andThen (call BuildSchema (buildSchema L schemaString)) (\<lambda>composedSchema.
        andThen (call ToAPISchema (toAPISchema L composedSchema)) (\<lambda>apiSchema.
        andThen (call Parse (parse L operationString)) (\<lambda>operationDocument.
        andThen (call ToGraphQLJSSchema (toGraphQLJSSchema L apiSchema)) (\<lambda>graphqlJsSchema.
        andThen (call Validate (validate L (Some graphqlJsSchema) operationDocument))
          (\<lambda>validationErrors.
        if length validationErrors > 0
        then returns \<lparr>errors = Some validationErrors, data = None\<rparr>
        else
        andThen (call OperationFromDocument
                   (operationFromDocument L (Some composedSchema) operationDocument operationName))
          (\<lambda>operation.
        andThen (call NewQueryPlanner (newQueryPlanner L (Some composedSchema))) (\<lambda>planner.
        andThen (call BuildQueryPlan (buildQueryPlan L planner operation)) (\<lambda>queryPlan.
        returns \<lparr>errors = None, data = Some queryPlan\<rparr>)))))))))
       (\<lambda>e. returns \<lparr>errors = Some [e], data = None\<rparr>)"

text \<open>
  \<open>create\<close>: no \<open>try\<close>. Each global is assigned as soon as its value is there:
  \<open>COMPOSED_SCHEMA\<close> first, then \<open>SCHEMA\<close>, then \<open>PLANNER\<close>; \<open>toAPISchema\<close> is called on
  the global just assigned, and the global is what the constructor receives.
\<close>

definition create ::
  "('cs, 'api, 'gs, 'doc, 'op, 'pl, 'qp, 'e) library \<Rightarrow> string
     \<Rightarrow> (unit, 'e, ('cs, 'gs, 'pl, 'qp, 'e) runtime) js" where
  "create L schemaString =
     andThen (call BuildSchema (buildSchema L schemaString)) (\<lambda>composedSchema.
     andThen (\<lambda>s. returns () (s\<lparr>COMPOSED_SCHEMA := Some composedSchema\<rparr>)) (\<lambda>_.
     andThen (\<lambda>s. member (COMPOSED_SCHEMA s) ''toAPISchema'' s) (\<lambda>receiver.
     andThen (call ToAPISchema (toAPISchema L receiver)) (\<lambda>apiSchema.
     andThen (call ToGraphQLJSSchema (toGraphQLJSSchema L apiSchema)) (\<lambda>graphqlJsSchema.
     andThen (\<lambda>s. returns () (s\<lparr>SCHEMA := Some graphqlJsSchema\<rparr>)) (\<lambda>_.
     andThen (\<lambda>s. call NewQueryPlanner (newQueryPlanner L (COMPOSED_SCHEMA s)) s) (\<lambda>planner.
     (\<lambda>s. returns () (s\<lparr>PLANNER := Some planner\<rparr>)))))))))"

text \<open>
  \<open>plan2\<close>, the session form: \<open>plan\<close> without the schema steps, reading \<open>SCHEMA\<close>,
  \<open>COMPOSED_SCHEMA\<close> and \<open>PLANNER\<close> where \<open>plan\<close> has its locals.
\<close>

definition plan2 ::
  "('cs, 'api, 'gs, 'doc, 'op, 'pl, 'qp, 'e) library \<Rightarrow> string \<Rightarrow> string option
     \<Rightarrow> (('qp, 'e) ExecutionResult, 'e, ('cs, 'gs, 'pl, 'qp, 'e) runtime) js" where
  "plan2 L operationString operationName =
     try_catch
       (andThen (call Parse (parse L operationString)) (\<lambda>operationDocument.
        andThen (\<lambda>s. call Validate (validate L (SCHEMA s) operationDocument) s)
          (\<lambda>validationErrors.
        if length validationErrors > 0
        then returns \<lparr>errors = Some validationErrors, data = None\<rparr>
        else
        andThen (\<lambda>s. call OperationFromDocument
                        (operationFromDocument L (COMPOSED_SCHEMA s) operationDocument operationName) s)
          (\<lambda>operation.
        andThen (\<lambda>s. member (PLANNER s) ''buildQueryPlan'' s) (\<lambda>planner.
        andThen (call BuildQueryPlan (buildQueryPlan L planner operation)) (\<lambda>queryPlan.
        returns \<lparr>errors = None, data = Some queryPlan\<rparr>))))))
       (\<lambda>e. returns \<lparr>errors = Some [e], data = None\<rparr>)"

subsection \<open>The invocation scripts\<close>

text \<open>
  \<open>planner_create.ts\<close>; the host has bound \<open>schemaString\<close>. The script ends with
  \<open>Inr ()\<close>, or with \<open>Inl e\<close> when \<open>e\<close> leaves it uncaught.
\<close>

definition planner_create ::
  "('cs, 'api, 'gs, 'doc, 'op, 'pl, 'qp, 'e) library
     \<Rightarrow> (('qp, 'e) OperationResult \<Rightarrow> 'e js_error option) \<Rightarrow> string
     \<Rightarrow> (unit, 'e, ('cs, 'gs, 'pl, 'qp, 'e) runtime) js" where
  "planner_create L dn schemaString =
     try_catch
       (andThen (create L schemaString) (\<lambda>_. done_cb dn \<lparr>Ok = Some Null, Err = None\<rparr>))
       (\<lambda>e. done_cb dn \<lparr>Ok = None, Err = Some [e]\<rparr>)"

text \<open>
  \<open>planner_plan.ts\<close>; the host has bound \<open>queryString\<close> and \<open>operationName\<close>.
  \<open>planResult.errors?.length > 0\<close> is false when \<open>errors\<close> is missing.
\<close>

definition planner_plan ::
  "('cs, 'api, 'gs, 'doc, 'op, 'pl, 'qp, 'e) library
     \<Rightarrow> (('qp, 'e) OperationResult \<Rightarrow> 'e js_error option) \<Rightarrow> string \<Rightarrow> string option
     \<Rightarrow> (unit, 'e, ('cs, 'gs, 'pl, 'qp, 'e) runtime) js" where
  "planner_plan L dn queryString operationName =
     try_catch
       (andThen (plan2 L queryString operationName) (\<lambda>planResult.
        if (case errors planResult of None \<Rightarrow> False | Some es \<Rightarrow> length es > 0)
        then done_cb dn \<lparr>Ok = None, Err = errors planResult\<rparr>
        else done_cb dn \<lparr>Ok = map_option Plan (data planResult), Err = None\<rparr>))
       (\<lambda>e. done_cb dn \<lparr>Ok = None, Err = Some [e]\<rparr>)"

subsection \<open>Notions the properties use\<close>

text \<open>
  The JavaScript sequence \<open>create(schemaString); return plan2(operationString, operationName)\<close>:
  when \<open>create\<close> throws, \<open>plan2\<close> is not reached.
\<close>

definition create_then_plan2 ::
  "('cs, 'api, 'gs, 'doc, 'op, 'pl, 'qp, 'e) library \<Rightarrow> string \<Rightarrow> string \<Rightarrow> string option
     \<Rightarrow> (('qp, 'e) ExecutionResult, 'e, ('cs, 'gs, 'pl, 'qp, 'e) runtime) js" where
  "create_then_plan2 L schemaString operationString operationName =
     andThen (create L schemaString) (\<lambda>_. plan2 L operationString operationName)"

text \<open>
  An envelope is well formed when exactly one of its two members is there, and an
  \<open>Err\<close> that is there is not the empty list.
\<close>

definition well_formed :: "('qp, 'e) OperationResult \<Rightarrow> bool" where
  "well_formed r = ((Ok r = None) \<noteq> (Err r = None) \<and> Err r \<noteq> Some [])"

text \<open>
  A small library to run the bridge on: schemas, documents, operations, planners and plans
  are strings. The empty schema does not compile, \<open>type Query\<close> has no API schema, no
  planner can be built for \<open>type Query { x: Int }\<close>; the query \<open>{\<close> does not parse,
  \<open>{ a b }\<close> has two validation errors; \<open>validate\<close> rejects a schema that is
  \<open>undefined\<close>, as graphql's \<open>assertValidSchema\<close> does; a named operation is never found.
\<close>

definition sample :: "(string, string, string, string, string, string, string, string) library" where
  "sample =
     \<lparr>buildSchema = (\<lambda>s. if s = '''' then Inl (Thrown ''Syntax Error: Unexpected EOF.'') else Inr s),
      toAPISchema = (\<lambda>cs. if cs = ''type Query'' then Inl (Thrown ''Type Query must define fields.'')
                           else Inr cs),
      toGraphQLJSSchema = (\<lambda>api. Inr api),
      parse = (\<lambda>q. if q = ''{'' then Inl (Thrown ''Syntax Error: Expected Name, found EOF.'') else Inr q),
      validate = (\<lambda>g doc. case g of
                     None \<Rightarrow> Inl (Thrown ''Expected undefined to be a GraphQL schema.'')
                   | Some _ \<Rightarrow> Inr (if doc = ''{ a b }''
                                    then [Thrown ''Cannot query field a.'', Thrown ''Cannot query field b.'']
                                    else [])),
      operationFromDocument = (\<lambda>cs doc name. case name of
                     None \<Rightarrow> Inr doc
                   | Some nm \<Rightarrow> Inl (Thrown (''Unknown operation named '' @ nm))),
      newQueryPlanner = (\<lambda>cs. case cs of
                     None \<Rightarrow> Inl (TypeError ''schema is undefined'')
                   | Some c \<Rightarrow> if c = ''type Query { x: Int }''
                              then Inl (Thrown ''No subgraphs found in the supergraph.'')
                              else Inr c),
      buildQueryPlan = (\<lambda>p operation. Inr (''Fetch '' @ operation))\<rparr>"

text \<open>
  Two runtimes of the sample library: \<open>booted\<close>, where nothing has been created yet, and
  \<open>loaded\<close>, after a successful Create of the schema \<open>type Query { me: String }\<close>.
\<close>

definition booted :: "(string, string, string, string, string) runtime" where
  "booted = fresh"

definition loaded :: "(string, string, string, string, string) runtime" where
  "loaded = snd (create sample ''type Query { me: String }'' booted)"

text \<open>
  Two host callbacks: \<open>quiet\<close> returns normally on every envelope, \<open>refusing\<close> throws
  on every envelope.
\<close>

definition quiet :: "('qp, 'e) OperationResult \<Rightarrow> 'e js_error option" where
  "quiet r = None"

definition refusing :: "('qp, string) OperationResult \<Rightarrow> string js_error option" where
  "refusing r = Some (Thrown ''the host cannot take the result'')"


text \<open>
  The runtimes in which no Create has succeeded yet: a new one, and what a failed
  \<open>create\<close> (alone or inside its script), a \<open>plan2\<close> (alone or inside its script) or a
  one-shot \<open>plan\<close> makes of such a runtime.
\<close>

inductive never_created ::
  "('cs, 'api, 'gs, 'doc, 'op, 'pl, 'qp, 'e) library \<Rightarrow> ('cs, 'gs, 'pl, 'qp, 'e) runtime \<Rightarrow> bool"
  for L where
  new_runtime: "never_created L fresh"
| failed_create:
    "never_created L s \<Longrightarrow> fst (create L S s) = Inl e \<Longrightarrow> never_created L (snd (create L S s))"
| failed_create_script:
    "never_created L s \<Longrightarrow> fst (create L S s) = Inl e
       \<Longrightarrow> never_created L (snd (planner_create L dn S s))"
| after_plan2: "never_created L s \<Longrightarrow> never_created L (snd (plan2 L q n s))"
| after_plan_script: "never_created L s \<Longrightarrow> never_created L (snd (planner_plan L dn q n s))"
| after_plan: "never_created L s \<Longrightarrow> never_created L (snd (plan L S q n s))"

section \<open>What each function does, case by case\<close>

lemmas js_defs = returns_def throws_def andThen_def try_catch_def call_def member_def done_cb_def

lemma plan2_eq:
  "plan2 L q n s =
     (case parse L q of
        Inl e \<Rightarrow> (Inr \<lparr>errors = Some [e], data = None\<rparr>, s\<lparr>calls := calls s @ [Parse]\<rparr>)
      | Inr doc \<Rightarrow>
     (case validate L (SCHEMA s) doc of
        Inl e \<Rightarrow> (Inr \<lparr>errors = Some [e], data = None\<rparr>, s\<lparr>calls := calls s @ [Parse, Validate]\<rparr>)
      | Inr es \<Rightarrow>
          if es \<noteq> []
          then (Inr \<lparr>errors = Some es, data = None\<rparr>, s\<lparr>calls := calls s @ [Parse, Validate]\<rparr>)
          else
     (case operationFromDocument L (COMPOSED_SCHEMA s) doc n of
        Inl e \<Rightarrow> (Inr \<lparr>errors = Some [e], data = None\<rparr>,
                  s\<lparr>calls := calls s @ [Parse, Validate, OperationFromDocument]\<rparr>)
      | Inr op \<Rightarrow>
     (case PLANNER s of
        None \<Rightarrow> (Inr \<lparr>errors = Some [TypeError (cannot_read ''buildQueryPlan'')], data = None\<rparr>,
                 s\<lparr>calls := calls s @ [Parse, Validate, OperationFromDocument]\<rparr>)
      | Some p \<Rightarrow>
     (case buildQueryPlan L p op of
        Inl e \<Rightarrow> (Inr \<lparr>errors = Some [e], data = None\<rparr>,
                  s\<lparr>calls := calls s @ [Parse, Validate, OperationFromDocument, BuildQueryPlan]\<rparr>)
      | Inr qp \<Rightarrow> (Inr \<lparr>errors = None, data = Some qp\<rparr>,
                  s\<lparr>calls := calls s @ [Parse, Validate, OperationFromDocument, BuildQueryPlan]\<rparr>))))))"
  by (simp add: plan2_def js_defs split: sum.splits option.splits)

lemma create_eq:
  "create L S s =
     (case buildSchema L S of
        Inl e \<Rightarrow> (Inl e, s\<lparr>calls := calls s @ [BuildSchema]\<rparr>)
      | Inr cs \<Rightarrow>
     (case toAPISchema L cs of
        Inl e \<Rightarrow> (Inl e, s\<lparr>COMPOSED_SCHEMA := Some cs, calls := calls s @ [BuildSchema, ToAPISchema]\<rparr>)
      | Inr api \<Rightarrow>
     (case toGraphQLJSSchema L api of
        Inl e \<Rightarrow> (Inl e, s\<lparr>COMPOSED_SCHEMA := Some cs,
                            calls := calls s @ [BuildSchema, ToAPISchema, ToGraphQLJSSchema]\<rparr>)
      | Inr g \<Rightarrow>
     (case newQueryPlanner L (Some cs) of
        Inl e \<Rightarrow> (Inl e, s\<lparr>SCHEMA := Some g, COMPOSED_SCHEMA := Some cs,
                            calls := calls s @ [BuildSchema, ToAPISchema, ToGraphQLJSSchema,
                                                NewQueryPlanner]\<rparr>)
      | Inr p \<Rightarrow> (Inr (), s\<lparr>SCHEMA := Some g, COMPOSED_SCHEMA := Some cs, PLANNER := Some p,
                             calls := calls s @ [BuildSchema, ToAPISchema, ToGraphQLJSSchema,
                                                 NewQueryPlanner]\<rparr>)))))"
  by (simp add: create_def js_defs split: sum.splits option.splits)

lemma plan_eq:
  "plan L S q n s =
     (case buildSchema L S of
        Inl e \<Rightarrow> (Inr \<lparr>errors = Some [e], data = None\<rparr>, s\<lparr>calls := calls s @ [BuildSchema]\<rparr>)
      | Inr cs \<Rightarrow>
     (case toAPISchema L cs of
        Inl e \<Rightarrow> (Inr \<lparr>errors = Some [e], data = None\<rparr>,
                  s\<lparr>calls := calls s @ [BuildSchema, ToAPISchema]\<rparr>)
      | Inr api \<Rightarrow>
     (case parse L q of
        Inl e \<Rightarrow> (Inr \<lparr>errors = Some [e], data = None\<rparr>,
                  s\<lparr>calls := calls s @ [BuildSchema, ToAPISchema, Parse]\<rparr>)
      | Inr doc \<Rightarrow>
     (case toGraphQLJSSchema L api of
        Inl e \<Rightarrow> (Inr \<lparr>errors = Some [e], data = None\<rparr>,
                  s\<lparr>calls := calls s @ [BuildSchema, ToAPISchema, Parse, ToGraphQLJSSchema]\<rparr>)
      | Inr g \<Rightarrow>
     (case validate L (Some g) doc of
        Inl e \<Rightarrow> (Inr \<lparr>errors = Some [e], data = None\<rparr>,
                  s\<lparr>calls := calls s @ [BuildSchema, ToAPISchema, Parse, ToGraphQLJSSchema, Validate]\<rparr>)
      | Inr es \<Rightarrow>
          if es \<noteq> []
          then (Inr \<lparr>errors = Some es, data = None\<rparr>,
                s\<lparr>calls := calls s @ [BuildSchema, ToAPISchema, Parse, ToGraphQLJSSchema, Validate]\<rparr>)
          else
     (case operationFromDocument L (Some cs) doc n of
        Inl e \<Rightarrow> (Inr \<lparr>errors = Some [e], data = None\<rparr>,
                  s\<lparr>calls := calls s @ [BuildSchema, ToAPISchema, Parse, ToGraphQLJSSchema, Validate,
                                           OperationFromDocument]\<rparr>)
      | Inr op \<Rightarrow>
     (case newQueryPlanner L (Some cs) of
        Inl e \<Rightarrow> (Inr \<lparr>errors = Some [e], data = None\<rparr>,
                  s\<lparr>calls := calls s @ [BuildSchema, ToAPISchema, Parse, ToGraphQLJSSchema, Validate,
                                           OperationFromDocument, NewQueryPlanner]\<rparr>)
      | Inr p \<Rightarrow>
     (case buildQueryPlan L p op of
        Inl e \<Rightarrow> (Inr \<lparr>errors = Some [e], data = None\<rparr>,
                  s\<lparr>calls := calls s @ [BuildSchema, ToAPISchema, Parse, ToGraphQLJSSchema, Validate,
                                           OperationFromDocument, NewQueryPlanner, BuildQueryPlan]\<rparr>)
      | Inr qp \<Rightarrow> (Inr \<lparr>errors = None, data = Some qp\<rparr>,
                  s\<lparr>calls := calls s @ [BuildSchema, ToAPISchema, Parse, ToGraphQLJSSchema, Validate,
                                           OperationFromDocument, NewQueryPlanner, BuildQueryPlan]\<rparr>)))))))))"
  by (simp add: plan_def js_defs split: sum.splits option.splits)

lemma planner_create_eq:
  "planner_create L dn S s =
     (case create L S s of
        (Inl e, s1) \<Rightarrow> done_cb dn \<lparr>Ok = None, Err = Some [e]\<rparr> s1
      | (Inr u, s1) \<Rightarrow>
          (case dn \<lparr>Ok = Some Null, Err = None\<rparr> of
             None \<Rightarrow> (Inr (), s1\<lparr>delivered := delivered s1 @ [\<lparr>Ok = Some Null, Err = None\<rparr>]\<rparr>)
           | Some e \<Rightarrow> done_cb dn \<lparr>Ok = None, Err = Some [e]\<rparr>
                        (s1\<lparr>delivered := delivered s1 @ [\<lparr>Ok = Some Null, Err = None\<rparr>]\<rparr>)))"
  by (simp add: planner_create_def js_defs split: sum.splits option.splits prod.splits)

lemma planner_plan_eq:
  "planner_plan L dn q n s =
     (case plan2 L q n s of
        (Inl e, s1) \<Rightarrow> done_cb dn \<lparr>Ok = None, Err = Some [e]\<rparr> s1
      | (Inr planResult, s1) \<Rightarrow>
          (let r = (if (case errors planResult of None \<Rightarrow> False | Some es \<Rightarrow> es \<noteq> [])
                    then \<lparr>Ok = None, Err = errors planResult\<rparr>
                    else \<lparr>Ok = map_option Plan (data planResult), Err = None\<rparr>)
           in case dn r of
                None \<Rightarrow> (Inr (), s1\<lparr>delivered := delivered s1 @ [r]\<rparr>)
              | Some e \<Rightarrow> done_cb dn \<lparr>Ok = None, Err = Some [e]\<rparr>
                           (s1\<lparr>delivered := delivered s1 @ [r]\<rparr>)))"
  by (simp add: planner_plan_def js_defs Let_def split: sum.splits option.splits prod.splits)

lemma loaded_eq:
  "loaded = \<lparr>SCHEMA = Some ''type Query { me: String }'',
             COMPOSED_SCHEMA = Some ''type Query { me: String }'',
             PLANNER = Some ''type Query { me: String }'',
             calls = [BuildSchema, ToAPISchema, ToGraphQLJSSchema, NewQueryPlanner],
             delivered = []\<rparr>"
  by (simp add: loaded_def create_eq sample_def booted_def fresh_def)

lemma booted_eq:
  "booted = \<lparr>SCHEMA = None, COMPOSED_SCHEMA = None, PLANNER = None, calls = [], delivered = []\<rparr>"
  by (simp add: booted_def fresh_def)

lemma plan2_returns:
  "\<exists>r. fst (plan2 L q n s) = Inr r \<and>
       ((\<exists>es. es \<noteq> [] \<and> r = \<lparr>errors = Some es, data = None\<rparr>) \<or>
        (\<exists>qp. r = \<lparr>errors = None, data = Some qp\<rparr>))"
  by (simp add: plan2_eq split: sum.splits option.splits)

lemma plan2_delivered: "delivered (snd (plan2 L q n s)) = delivered s"
  by (simp add: plan2_eq split: sum.splits option.splits)

lemma create_delivered: "delivered (snd (create L S s)) = delivered s"
  by (simp add: create_eq split: sum.splits option.splits)

lemma plan2_session: "session (snd (plan2 L q n s)) = session s"
  by (simp add: plan2_eq session_def split: sum.splits option.splits)


lemma create_failure_planner:
  "fst (create L S s) = Inl e \<Longrightarrow> PLANNER (snd (create L S s)) = PLANNER s"
  by (auto simp add: create_eq split: sum.splits)

lemma planner_create_globals:
  "session (snd (planner_create L dn S s)) = session (snd (create L S s))"
  by (cases "create L S s")
     (auto simp add: planner_create_eq done_cb_def session_def split: sum.splits option.splits)

lemma planner_plan_globals:
  "session (snd (planner_plan L dn q n s)) = session s"
proof -
  obtain res s1 where c: "plan2 L q n s = (res, s1)" by (cases "plan2 L q n s")
  with plan2_session [of L q n s] have "session s1 = session s" by simp
  with c show ?thesis
    by (auto simp add: planner_plan_eq done_cb_def session_def Let_def split: sum.splits option.splits)
qed

lemma plan_session: "session (snd (plan L S q n s)) = session s"
  by (simp add: plan_eq session_def split: sum.splits option.splits)

lemma session_planner: "session s' = session s \<Longrightarrow> PLANNER s' = PLANNER s"
  by (simp add: session_def)

lemma never_created_planner: "never_created L s \<Longrightarrow> PLANNER s = None"
proof (induction rule: never_created.induct)
  case new_runtime
  show ?case by (simp add: fresh_def)
next
  case (failed_create s S e)
  then show ?case by (simp add: create_failure_planner)
next
  case (failed_create_script s S e dn)
  then show ?case
    using session_planner [OF planner_create_globals, of L dn S s]
    by (simp add: create_failure_planner)
next
  case (after_plan2 s q n)
  then show ?case using session_planner [OF plan2_session, of L q n s] by simp
next
  case (after_plan_script s dn q n)
  then show ?case using session_planner [OF planner_plan_globals, of L dn q n s] by simp
next
  case (after_plan s S q n)
  then show ?case using session_planner [OF plan_session, of L S q n s] by simp
qed

lemma plan2_without_planner:
  assumes "PLANNER s = None"
  shows "\<exists>es. es \<noteq> []
            \<and> fst (plan2 L q n s) = Inr \<lparr>errors = Some es, data = None\<rparr>
            \<and> (length es = 1 \<or> (\<exists>doc. parse L q = Inr doc \<and> validate L (SCHEMA s) doc = Inr es))"
  using assms by (auto simp add: plan2_eq split: sum.splits)

section \<open>The properties\<close>

text \<open>
  C1. When \<open>validate\<close> returns a non-empty list of validation errors for the parsed
  document, \<open>plan2\<close> (and the Plan script around it) and the one-shot \<open>plan\<close> return
  exactly that list as the error, and the only library calls made are those up to
  \<open>validate\<close>: neither \<open>operationFromDocument\<close> nor the planner is called. In every run the
  calls are an initial part of the sequence parse, validate, resolve, build the plan
  (for \<open>plan\<close>, of the same sequence with the schema steps where the source has them).
\<close>

theorem validation_errors_stop_planning:
  "(parse L q = Inr doc \<and> validate L (SCHEMA s) doc = Inr es \<and> es \<noteq> [] \<longrightarrow>
      plan2 L q n s =
        (Inr \<lparr>errors = Some es, data = None\<rparr>, s\<lparr>calls := calls s @ [Parse, Validate]\<rparr>) \<and>
      (dn \<lparr>Ok = None, Err = Some es\<rparr> = None \<longrightarrow>
         planner_plan L dn q n s =
           (Inr (), s\<lparr>calls := calls s @ [Parse, Validate],
                      delivered := delivered s @ [\<lparr>Ok = None, Err = Some es\<rparr>]\<rparr>)))
   \<and> (buildSchema L S = Inr cs \<and> toAPISchema L cs = Inr api \<and> parse L q = Inr doc
        \<and> toGraphQLJSSchema L api = Inr g \<and> validate L (Some g) doc = Inr es' \<and> es' \<noteq> [] \<longrightarrow>
      plan L S q n s =
        (Inr \<lparr>errors = Some es', data = None\<rparr>,
         s\<lparr>calls := calls s @ [BuildSchema, ToAPISchema, Parse, ToGraphQLJSSchema, Validate]\<rparr>))
   \<and> (\<exists>cs. calls (snd (plan2 L q n s)) = calls s @ cs
          \<and> prefix cs [Parse, Validate, OperationFromDocument, BuildQueryPlan])
   \<and> (\<exists>cs. calls (snd (plan L S q n s)) = calls s @ cs
          \<and> prefix cs [BuildSchema, ToAPISchema, Parse, ToGraphQLJSSchema, Validate,
                        OperationFromDocument, NewQueryPlanner, BuildQueryPlan])"
proof (intro conjI impI)
  assume a: "parse L q = Inr doc \<and> validate L (SCHEMA s) doc = Inr es \<and> es \<noteq> []"
  then show p2: "plan2 L q n s =
        (Inr \<lparr>errors = Some es, data = None\<rparr>, s\<lparr>calls := calls s @ [Parse, Validate]\<rparr>)"
    by (simp add: plan2_eq)
  assume "dn \<lparr>Ok = None, Err = Some es\<rparr> = None"
  with a p2 show "planner_plan L dn q n s =
           (Inr (), s\<lparr>calls := calls s @ [Parse, Validate],
                      delivered := delivered s @ [\<lparr>Ok = None, Err = Some es\<rparr>]\<rparr>)"
    by (simp add: planner_plan_eq)
next
  assume "buildSchema L S = Inr cs \<and> toAPISchema L cs = Inr api \<and> parse L q = Inr doc
        \<and> toGraphQLJSSchema L api = Inr g \<and> validate L (Some g) doc = Inr es' \<and> es' \<noteq> []"
  then show "plan L S q n s =
        (Inr \<lparr>errors = Some es', data = None\<rparr>,
         s\<lparr>calls := calls s @ [BuildSchema, ToAPISchema, Parse, ToGraphQLJSSchema, Validate]\<rparr>)"
    by (simp add: plan_eq)
next
  show "\<exists>cs. calls (snd (plan2 L q n s)) = calls s @ cs
          \<and> prefix cs [Parse, Validate, OperationFromDocument, BuildQueryPlan]"
    by (simp add: plan2_eq split: sum.splits option.splits)
next
  show "\<exists>cs. calls (snd (plan L S q n s)) = calls s @ cs
          \<and> prefix cs [BuildSchema, ToAPISchema, Parse, ToGraphQLJSSchema, Validate,
                        OperationFromDocument, NewQueryPlanner, BuildQueryPlan]"
    by (simp add: plan_eq split: sum.splits option.splits)
qed

text \<open>The sample library, the query \<open>{ a b }\<close> with its two validation errors.\<close>

theorem validation_errors_stop_planning_witness:
  "plan2 sample ''{ a b }'' None loaded =
     (Inr \<lparr>errors = Some [Thrown ''Cannot query field a.'', Thrown ''Cannot query field b.''],
           data = None\<rparr>,
      loaded\<lparr>calls := calls loaded @ [Parse, Validate]\<rparr>)
   \<and> planner_plan sample quiet ''{ a b }'' None loaded =
     (Inr (),
      loaded\<lparr>calls := calls loaded @ [Parse, Validate],
             delivered := delivered loaded @
               [\<lparr>Ok = None,
                 Err = Some [Thrown ''Cannot query field a.'', Thrown ''Cannot query field b.'']\<rparr>]\<rparr>)
   \<and> plan sample ''type Query { me: String }'' ''{ a b }'' None booted =
     (Inr \<lparr>errors = Some [Thrown ''Cannot query field a.'', Thrown ''Cannot query field b.''],
           data = None\<rparr>,
      booted\<lparr>calls := calls booted @ [BuildSchema, ToAPISchema, Parse, ToGraphQLJSSchema, Validate]\<rparr>)"
proof -
  let ?es = "[Thrown ''Cannot query field a.'', Thrown ''Cannot query field b.'']"
  have h1: "parse sample ''{ a b }'' = Inr ''{ a b }''
            \<and> validate sample (SCHEMA loaded) ''{ a b }'' = Inr ?es \<and> ?es \<noteq> []"
    by (simp add: sample_def loaded_eq)
  have h2: "(quiet :: (string, string) OperationResult \<Rightarrow> string js_error option)
              \<lparr>Ok = None, Err = Some ?es\<rparr> = None"
    by (simp add: quiet_def)
  have h3: "buildSchema sample ''type Query { me: String }'' = Inr ''type Query { me: String }''
            \<and> toAPISchema sample ''type Query { me: String }'' = Inr ''type Query { me: String }''
            \<and> parse sample ''{ a b }'' = Inr ''{ a b }''
            \<and> toGraphQLJSSchema sample ''type Query { me: String }'' = Inr ''type Query { me: String }''
            \<and> validate sample (Some ''type Query { me: String }'') ''{ a b }'' = Inr ?es \<and> ?es \<noteq> []"
    by (simp add: sample_def)
  note t1 = validation_errors_stop_planning
         [where L = sample and q = "''{ a b }''" and doc = "''{ a b }''" and s = loaded
            and es = ?es and n = None and dn = quiet]
  note a = mp [OF conjunct1 [OF t1] h1]
  note a1 = conjunct1 [OF a]
  note a2 = mp [OF conjunct2 [OF a] h2]
  note t2 = validation_errors_stop_planning
         [where L = sample and q = "''{ a b }''" and doc = "''{ a b }''" and s = booted
            and S = "''type Query { me: String }''" and cs = "''type Query { me: String }''"
            and api = "''type Query { me: String }''" and g = "''type Query { me: String }''"
            and es' = ?es and n = None]
  note b = mp [OF conjunct1 [OF conjunct2 [OF t2]] h3]
  show ?thesis
    by (rule conjI [OF a1 conjI [OF a2 b]])
qed

text \<open>
  C2, as amended. For every input and every host callback \<open>done\<close> that returns
  normally, each script (Create and Plan) ends normally, whatever the operation inside it
  did, and hands exactly one envelope to \<open>done\<close>, an \<open>{Ok: ...}\<close> or an \<open>{Err: ...}\<close>:
  the runtime after the script is the runtime after the operation with that one envelope
  added to what the host has received.
\<close>

theorem scripts_deliver_exactly_once:
  assumes "\<forall>r. dn r = None"
  shows "(\<exists>r. well_formed r \<and> planner_create L dn S s =
               (Inr (), (snd (create L S s))\<lparr>delivered := delivered s @ [r]\<rparr>))
       \<and> (\<exists>r. well_formed r \<and> planner_plan L dn q n s =
               (Inr (), (snd (plan2 L q n s))\<lparr>delivered := delivered s @ [r]\<rparr>))"
proof
  show "\<exists>r. well_formed r \<and> planner_create L dn S s =
               (Inr (), (snd (create L S s))\<lparr>delivered := delivered s @ [r]\<rparr>)"
  proof (cases "create L S s")
    case (Pair res s1)
    with create_delivered [of L S s] have d: "delivered s1 = delivered s" by simp
    show ?thesis
    proof (cases res)
      case (Inl e)
      with Pair d assms
      have "well_formed \<lparr>Ok = None, Err = Some [e]\<rparr> \<and> planner_create L dn S s =
              (Inr (), (snd (create L S s))\<lparr>delivered := delivered s @ [\<lparr>Ok = None, Err = Some [e]\<rparr>]\<rparr>)"
        by (simp add: planner_create_eq done_cb_def well_formed_def)
      then show ?thesis ..
    next
      case (Inr u)
      with Pair d assms
      have "well_formed \<lparr>Ok = Some Null, Err = None\<rparr> \<and> planner_create L dn S s =
              (Inr (), (snd (create L S s))\<lparr>delivered := delivered s @ [\<lparr>Ok = Some Null, Err = None\<rparr>]\<rparr>)"
        by (simp add: planner_create_eq well_formed_def)
      then show ?thesis ..
    qed
  qed
next
  show "\<exists>r. well_formed r \<and> planner_plan L dn q n s =
               (Inr (), (snd (plan2 L q n s))\<lparr>delivered := delivered s @ [r]\<rparr>)"
  proof (cases "plan2 L q n s")
    case (Pair res s1)
    with plan2_delivered [of L q n s] have d: "delivered s1 = delivered s" by simp
    from plan2_returns [of L q n s] Pair obtain r where
      r: "res = Inr r"
         "(\<exists>es. es \<noteq> [] \<and> r = \<lparr>errors = Some es, data = None\<rparr>) \<or>
          (\<exists>qp. r = \<lparr>errors = None, data = Some qp\<rparr>)"
      by auto
    from r(2) show ?thesis
    proof
      assume "\<exists>es. es \<noteq> [] \<and> r = \<lparr>errors = Some es, data = None\<rparr>"
      then obtain es where "es \<noteq> []" "r = \<lparr>errors = Some es, data = None\<rparr>" by blast
      with Pair d r(1) assms
      have "well_formed \<lparr>Ok = None, Err = Some es\<rparr> \<and> planner_plan L dn q n s =
              (Inr (), (snd (plan2 L q n s))\<lparr>delivered := delivered s @ [\<lparr>Ok = None, Err = Some es\<rparr>]\<rparr>)"
        by (simp add: planner_plan_eq well_formed_def)
      then show ?thesis ..
    next
      assume "\<exists>qp. r = \<lparr>errors = None, data = Some qp\<rparr>"
      then obtain qp where "r = \<lparr>errors = None, data = Some qp\<rparr>" by blast
      with Pair d r(1) assms
      have "well_formed \<lparr>Ok = Some (Plan qp), Err = None\<rparr> \<and> planner_plan L dn q n s =
              (Inr (), (snd (plan2 L q n s))\<lparr>delivered := delivered s @ [\<lparr>Ok = Some (Plan qp), Err = None\<rparr>]\<rparr>)"
        by (simp add: planner_plan_eq well_formed_def)
      then show ?thesis ..
    qed
  qed
qed

text \<open>The sample library: a Create that throws and a Plan whose query does not parse.\<close>

theorem scripts_deliver_exactly_once_witness:
  "(\<exists>r. well_formed r \<and> planner_create sample quiet ''type Query'' loaded =
               (Inr (), (snd (create sample ''type Query'' loaded))\<lparr>delivered := delivered loaded @ [r]\<rparr>))
       \<and> (\<exists>r. well_formed r \<and> planner_plan sample quiet ''{'' None loaded =
               (Inr (), (snd (plan2 sample ''{'' None loaded))\<lparr>delivered := delivered loaded @ [r]\<rparr>))"
proof -
  have h: "\<forall>r. (quiet :: (string, string) OperationResult \<Rightarrow> string js_error option) r = None"
    by (simp add: quiet_def)
  show ?thesis
    by (rule scripts_deliver_exactly_once [OF h])
qed

text \<open>
  C2 as stated fails for a callback that throws: \<open>done\<close> is called inside the \<open>try\<close>
  block, so its own exception reaches the \<open>catch\<close> clause, which calls \<open>done\<close> again.
  After a Create that succeeded, and after a Plan that produced a plan, the host has been
  handed two envelopes, and the second call's exception leaves the script uncaught.
\<close>

theorem scripts_deliver_twice_when_done_throws:
  "fst (planner_create sample refusing ''type Query { me: String }'' booted) =
     Inl (Thrown ''the host cannot take the result'')
   \<and> delivered (snd (planner_create sample refusing ''type Query { me: String }'' booted)) =
       [\<lparr>Ok = Some Null, Err = None\<rparr>,
        \<lparr>Ok = None, Err = Some [Thrown ''the host cannot take the result'']\<rparr>]
   \<and> fst (planner_plan sample refusing ''{ me }'' None loaded) =
       Inl (Thrown ''the host cannot take the result'')
   \<and> delivered (snd (planner_plan sample refusing ''{ me }'' None loaded)) =
       [\<lparr>Ok = Some (Plan ''Fetch { me }''), Err = None\<rparr>,
        \<lparr>Ok = None, Err = Some [Thrown ''the host cannot take the result'']\<rparr>]"
  by (simp add: planner_create_eq planner_plan_eq create_eq plan2_eq done_cb_def sample_def
                refusing_def booted_eq loaded_eq)

text \<open>
  The same for every library: when \<open>create\<close> has returned and the callback throws on
  \<open>{Ok: null}\<close>, the Create script delivers a second envelope with the callback's error.
\<close>

lemma planner_create_when_done_throws:
  assumes "fst (create L S s) = Inr ()" and "dn \<lparr>Ok = Some Null, Err = None\<rparr> = Some e"
  shows "delivered (snd (planner_create L dn S s)) =
           delivered s @ [\<lparr>Ok = Some Null, Err = None\<rparr>, \<lparr>Ok = None, Err = Some [e]\<rparr>]
         \<and> fst (planner_create L dn S s) =
             (case dn \<lparr>Ok = None, Err = Some [e]\<rparr> of None \<Rightarrow> Inr () | Some e' \<Rightarrow> Inl e')"
proof -
  obtain res s1 where c: "create L S s = (res, s1)" by (cases "create L S s")
  with create_delivered [of L S s] have d: "delivered s1 = delivered s" by simp
  from c d assms show ?thesis
    by (simp add: planner_create_eq done_cb_def)
qed

text \<open>
  C3, as amended. For every schema string \<open>S\<close> on which \<open>create(S)\<close> returns without
  throwing, every query string and every optional operation name, \<open>create(S)\<close> followed
  by \<open>plan2(q, name)\<close> returns the same result (the same plan or the same error list) as
  the one-shot \<open>plan(S, q, name)\<close>, from whatever state either is run.
\<close>

theorem session_form_agrees_after_create:
  assumes "fst (create L S s) = Inr ()"
  shows "fst (plan2 L q n (snd (create L S s))) = fst (plan L S q n s0)
         \<and> fst (create_then_plan2 L S q n s) = fst (plan L S q n s0)"
proof -
  from assms obtain cs api g p where
    ok: "buildSchema L S = Inr cs" "toAPISchema L cs = Inr api" "toGraphQLJSSchema L api = Inr g"
        "newQueryPlanner L (Some cs) = Inr p"
    by (auto simp add: create_eq split: sum.splits)
  then have s1: "SCHEMA (snd (create L S s)) = Some g" "COMPOSED_SCHEMA (snd (create L S s)) = Some cs"
      "PLANNER (snd (create L S s)) = Some p"
    by (simp_all add: create_eq)
  from ok s1 have a: "fst (plan2 L q n (snd (create L S s))) = fst (plan L S q n s0)"
    by (simp add: plan2_eq plan_eq split: sum.splits)
  obtain u s' where c: "create L S s = (u, s')" by (cases "create L S s")
  with assms have "create_then_plan2 L S q n s = plan2 L q n (snd (create L S s))"
    by (simp add: create_then_plan2_def andThen_def)
  with a show ?thesis by simp
qed

text \<open>The sample library, a schema that compiles and a valid query.\<close>

theorem session_form_agrees_after_create_witness:
  "fst (plan2 sample ''{ me }'' None (snd (create sample ''type Query { me: String }'' booted))) =
     fst (plan sample ''type Query { me: String }'' ''{ me }'' None booted)
   \<and> fst (create_then_plan2 sample ''type Query { me: String }'' ''{ me }'' None booted) =
     fst (plan sample ''type Query { me: String }'' ''{ me }'' None booted)
   \<and> fst (plan sample ''type Query { me: String }'' ''{ me }'' None booted) =
     Inr \<lparr>errors = None, data = Some ''Fetch { me }''\<rparr>"
proof -
  have h: "fst (create sample ''type Query { me: String }'' booted) = Inr ()"
    by (simp add: create_eq sample_def)
  note t = session_form_agrees_after_create
             [OF h, where q = "''{ me }''" and n = None and ?s0.0 = booted]
  have b: "fst (plan sample ''type Query { me: String }'' ''{ me }'' None booted) =
             Inr \<lparr>errors = None, data = Some ''Fetch { me }''\<rparr>"
    by (simp add: plan_eq sample_def)
  show ?thesis
    by (rule conjI [OF conjunct1 [OF t] conjI [OF conjunct2 [OF t] b]])
qed

text \<open>
  C3 as stated fails where \<open>create\<close> throws. On the empty schema the one-shot form
  returns the compilation error; \<open>create\<close> throws it, so the sequence returns nothing, and
  a \<open>plan2\<close> run after the failed Create answers from whatever the globals hold: the
  \<open>undefined\<close> schema of a new runtime (another error), or the session of an earlier
  Create (a plan).
\<close>

theorem session_form_differs_when_create_fails:
  "fst (create sample '''' booted) = Inl (Thrown ''Syntax Error: Unexpected EOF.'')
   \<and> fst (plan2 sample ''{ me }'' None (snd (create sample '''' booted))) =
       Inr \<lparr>errors = Some [Thrown ''Expected undefined to be a GraphQL schema.''], data = None\<rparr>
   \<and> fst (plan2 sample ''{ me }'' None (snd (create sample '''' loaded))) =
       Inr \<lparr>errors = None, data = Some ''Fetch { me }''\<rparr>
   \<and> fst (create_then_plan2 sample '''' ''{ me }'' None booted) =
       Inl (Thrown ''Syntax Error: Unexpected EOF.'')
   \<and> fst (plan sample '''' ''{ me }'' None booted) =
       Inr \<lparr>errors = Some [Thrown ''Syntax Error: Unexpected EOF.''], data = None\<rparr>"
  by (simp add: create_then_plan2_def andThen_def create_eq plan2_eq plan_eq sample_def
                booted_eq loaded_eq)

text \<open>
  C4, as amended. A Create call that succeeds replaces all three fields. One that fails
  keeps the assignments made before the failing step: when schema compilation fails all
  three fields are as before; when the API schema cannot be derived (\<open>toAPISchema\<close> or
  \<open>toGraphQLJSSchema\<close> throws) \<open>COMPOSED_SCHEMA\<close> holds the new compiled schema and
  \<open>SCHEMA\<close> and \<open>PLANNER\<close> are as before; when the planner cannot be constructed
  \<open>COMPOSED_SCHEMA\<close> and \<open>SCHEMA\<close> hold the new values and \<open>PLANNER\<close> is as before.
\<close>

theorem create_assigns_in_order:
  "(fst (create L S s) = Inr () \<longrightarrow>
      (\<exists>cs api g p. buildSchema L S = Inr cs \<and> toAPISchema L cs = Inr api
          \<and> toGraphQLJSSchema L api = Inr g \<and> newQueryPlanner L (Some cs) = Inr p
          \<and> session (snd (create L S s)) = (Some g, Some cs, Some p)))
   \<and> (buildSchema L S = Inl e \<longrightarrow>
        fst (create L S s) = Inl e \<and> session (snd (create L S s)) = session s)
   \<and> (buildSchema L S = Inr cs
        \<and> (toAPISchema L cs = Inl e
             \<or> (\<exists>api. toAPISchema L cs = Inr api \<and> toGraphQLJSSchema L api = Inl e)) \<longrightarrow>
        fst (create L S s) = Inl e
        \<and> session (snd (create L S s)) = (SCHEMA s, Some cs, PLANNER s))
   \<and> (buildSchema L S = Inr cs \<and> toAPISchema L cs = Inr api \<and> toGraphQLJSSchema L api = Inr g
        \<and> newQueryPlanner L (Some cs) = Inl e \<longrightarrow>
        fst (create L S s) = Inl e
        \<and> session (snd (create L S s)) = (Some g, Some cs, PLANNER s))"
proof (intro conjI impI)
  assume "fst (create L S s) = Inr ()"
  then show "\<exists>cs api g p. buildSchema L S = Inr cs \<and> toAPISchema L cs = Inr api
          \<and> toGraphQLJSSchema L api = Inr g \<and> newQueryPlanner L (Some cs) = Inr p
          \<and> session (snd (create L S s)) = (Some g, Some cs, Some p)"
    by (auto simp add: create_eq session_def split: sum.splits)
next
  assume a: "buildSchema L S = Inl e"
  then show "fst (create L S s) = Inl e" by (simp add: create_eq)
  from a show "session (snd (create L S s)) = session s" by (simp add: create_eq session_def)
next
  assume a: "buildSchema L S = Inr cs
        \<and> (toAPISchema L cs = Inl e
             \<or> (\<exists>api. toAPISchema L cs = Inr api \<and> toGraphQLJSSchema L api = Inl e))"
  then show "fst (create L S s) = Inl e" by (auto simp add: create_eq)
  from a show "session (snd (create L S s)) = (SCHEMA s, Some cs, PLANNER s)"
    by (auto simp add: create_eq session_def)
next
  assume a: "buildSchema L S = Inr cs \<and> toAPISchema L cs = Inr api \<and> toGraphQLJSSchema L api = Inr g
        \<and> newQueryPlanner L (Some cs) = Inl e"
  then show "fst (create L S s) = Inl e" by (simp add: create_eq)
  from a show "session (snd (create L S s)) = (Some g, Some cs, PLANNER s)"
    by (simp add: create_eq session_def)
qed

text \<open>The sample library, one schema for each of the four outcomes, on a loaded runtime.\<close>

theorem create_assigns_in_order_witness:
  "session (snd (create sample ''type Query { you: String }'' loaded)) =
     (Some ''type Query { you: String }'', Some ''type Query { you: String }'',
      Some ''type Query { you: String }'')
   \<and> session (snd (create sample '''' loaded)) = session loaded
   \<and> session (snd (create sample ''type Query'' loaded)) =
       (SCHEMA loaded, Some ''type Query'', PLANNER loaded)
   \<and> session (snd (create sample ''type Query { x: Int }'' loaded)) =
       (Some ''type Query { x: Int }'', Some ''type Query { x: Int }'', PLANNER loaded)"
proof -
  note t = create_assigns_in_order [where L = sample and s = loaded]
  have h1: "fst (create sample ''type Query { you: String }'' loaded) = Inr ()"
    by (simp add: create_eq sample_def)
  have b1: "buildSchema sample ''type Query { you: String }'' = Inr ''type Query { you: String }''"
           "toAPISchema sample ''type Query { you: String }'' = Inr ''type Query { you: String }''"
           "toGraphQLJSSchema sample ''type Query { you: String }'' = Inr ''type Query { you: String }''"
           "newQueryPlanner sample (Some ''type Query { you: String }'') = Inr ''type Query { you: String }''"
    by (simp_all add: sample_def)
  from mp [OF conjunct1 [OF t [of "''type Query { you: String }''"]] h1] b1
  have c1: "session (snd (create sample ''type Query { you: String }'' loaded)) =
     (Some ''type Query { you: String }'', Some ''type Query { you: String }'',
      Some ''type Query { you: String }'')"
    by auto
  have h2: "buildSchema sample '''' = Inl (Thrown ''Syntax Error: Unexpected EOF.'')"
    by (simp add: sample_def)
  note c2 = conjunct2 [OF mp [OF conjunct1 [OF conjunct2
              [OF t [where S = "''''" and e = "Thrown ''Syntax Error: Unexpected EOF.''"]]] h2]]
  have h3: "buildSchema sample ''type Query'' = Inr ''type Query''
            \<and> (toAPISchema sample ''type Query'' = Inl (Thrown ''Type Query must define fields.'')
                \<or> (\<exists>api. toAPISchema sample ''type Query'' = Inr api
                      \<and> toGraphQLJSSchema sample api = Inl (Thrown ''Type Query must define fields.'')))"
    by (simp add: sample_def)
  note c3 = conjunct2 [OF mp [OF conjunct1 [OF conjunct2 [OF conjunct2
              [OF t [where S = "''type Query''" and cs = "''type Query''"
                       and e = "Thrown ''Type Query must define fields.''"]]]] h3]]
  have h4: "buildSchema sample ''type Query { x: Int }'' = Inr ''type Query { x: Int }''
            \<and> toAPISchema sample ''type Query { x: Int }'' = Inr ''type Query { x: Int }''
            \<and> toGraphQLJSSchema sample ''type Query { x: Int }'' = Inr ''type Query { x: Int }''
            \<and> newQueryPlanner sample (Some ''type Query { x: Int }'') =
                Inl (Thrown ''No subgraphs found in the supergraph.'')"
    by (simp add: sample_def)
  note c4 = conjunct2 [OF mp [OF conjunct2 [OF conjunct2 [OF conjunct2
              [OF t [where S = "''type Query { x: Int }''" and cs = "''type Query { x: Int }''"
                       and api = "''type Query { x: Int }''" and g = "''type Query { x: Int }''"
                       and e = "Thrown ''No subgraphs found in the supergraph.''"]]]] h4]]
  show ?thesis
    by (rule conjI [OF c1 conjI [OF c2 conjI [OF c3 c4]]])
qed

text \<open>
  C4 as stated fails: a Create that throws in \<open>toAPISchema\<close> has already replaced
  \<open>COMPOSED_SCHEMA\<close>, while \<open>SCHEMA\<close> and \<open>PLANNER\<close> still belong to the schema
  loaded before.
\<close>

theorem create_failure_keeps_earlier_assignments:
  "fst (create sample ''type Query'' loaded) = Inl (Thrown ''Type Query must define fields.'')
   \<and> session loaded =
       (Some ''type Query { me: String }'', Some ''type Query { me: String }'',
        Some ''type Query { me: String }'')
   \<and> session (snd (create sample ''type Query'' loaded)) =
       (Some ''type Query { me: String }'', Some ''type Query'', Some ''type Query { me: String }'')"
  by (simp add: create_eq sample_def loaded_eq session_def)

text \<open>
  C5. \<open>create\<close> returns when \<open>buildSchema\<close>, \<open>toAPISchema\<close>, \<open>toGraphQLJSSchema\<close> and
  the \<open>QueryPlanner\<close> constructor all return, and otherwise throws the value the first
  failing step threw. For every host callback, the envelope the Create script produces
  is \<open>{Ok: null}\<close> in the first case and \<open>{Err: [e]}\<close>, with that very value \<open>e\<close>, in the
  second. When a step failed it is the only envelope; after \<open>{Ok: null}\<close> another one
  follows only if the callback itself threw, and carries the callback's error.
\<close>

theorem create_envelope:
  "fst (create L S s) =
     (case buildSchema L S of
        Inl e \<Rightarrow> Inl e
      | Inr cs \<Rightarrow>
          (case toAPISchema L cs of
             Inl e \<Rightarrow> Inl e
           | Inr api \<Rightarrow>
               (case toGraphQLJSSchema L api of
                  Inl e \<Rightarrow> Inl e
                | Inr g \<Rightarrow>
                    (case newQueryPlanner L (Some cs) of
                       Inl e \<Rightarrow> Inl e
                     | Inr p \<Rightarrow> Inr ()))))
   \<and> (\<exists>rest. delivered (snd (planner_create L dn S s)) =
          delivered s @
            (case fst (create L S s) of
               Inr u \<Rightarrow> \<lparr>Ok = Some Null, Err = None\<rparr>
             | Inl e \<Rightarrow> \<lparr>Ok = None, Err = Some [e]\<rparr>) # rest)
   \<and> delivered (snd (planner_create L dn S s)) =
       delivered s @
         (case fst (create L S s) of
            Inl e \<Rightarrow> [\<lparr>Ok = None, Err = Some [e]\<rparr>]
          | Inr u \<Rightarrow>
              \<lparr>Ok = Some Null, Err = None\<rparr> #
              (case dn \<lparr>Ok = Some Null, Err = None\<rparr> of
                 None \<Rightarrow> []
               | Some host_error \<Rightarrow> [\<lparr>Ok = None, Err = Some [host_error]\<rparr>]))"
proof (intro conjI)
  show "fst (create L S s) =
     (case buildSchema L S of
        Inl e \<Rightarrow> Inl e
      | Inr cs \<Rightarrow>
          (case toAPISchema L cs of
             Inl e \<Rightarrow> Inl e
           | Inr api \<Rightarrow>
               (case toGraphQLJSSchema L api of
                  Inl e \<Rightarrow> Inl e
                | Inr g \<Rightarrow>
                    (case newQueryPlanner L (Some cs) of
                       Inl e \<Rightarrow> Inl e
                     | Inr p \<Rightarrow> Inr ()))))"
    by (auto simp add: create_eq split: sum.splits)
next
  obtain res s1 where c: "create L S s = (res, s1)" by (cases "create L S s")
  with create_delivered [of L S s] have d: "delivered s1 = delivered s" by simp
  from c d show exact: "delivered (snd (planner_create L dn S s)) =
       delivered s @
         (case fst (create L S s) of
            Inl e \<Rightarrow> [\<lparr>Ok = None, Err = Some [e]\<rparr>]
          | Inr u \<Rightarrow>
              \<lparr>Ok = Some Null, Err = None\<rparr> #
              (case dn \<lparr>Ok = Some Null, Err = None\<rparr> of
                 None \<Rightarrow> []
               | Some host_error \<Rightarrow> [\<lparr>Ok = None, Err = Some [host_error]\<rparr>]))"
    by (cases res) (simp_all add: planner_create_eq done_cb_def split: option.splits)
  show "\<exists>rest. delivered (snd (planner_create L dn S s)) =
          delivered s @
            (case fst (create L S s) of
               Inr u \<Rightarrow> \<lparr>Ok = Some Null, Err = None\<rparr>
             | Inl e \<Rightarrow> \<lparr>Ok = None, Err = Some [e]\<rparr>) # rest"
    unfolding exact by (simp split: sum.splits)
qed

text \<open>
  The sample library: a schema that compiles, one that does not, and one with no planner
  handed to a callback that throws.
\<close>

theorem create_envelope_witness:
  "delivered (snd (planner_create sample quiet ''type Query { me: String }'' booted)) =
     [\<lparr>Ok = Some Null, Err = None\<rparr>]
   \<and> delivered (snd (planner_create sample quiet '''' booted)) =
     [\<lparr>Ok = None, Err = Some [Thrown ''Syntax Error: Unexpected EOF.'']\<rparr>]
   \<and> delivered (snd (planner_create sample refusing ''type Query { x: Int }'' booted)) =
     [\<lparr>Ok = None, Err = Some [Thrown ''No subgraphs found in the supergraph.'']\<rparr>]"
proof -
  have d: "delivered booted = []"
    by (simp add: booted_eq)
  have c1: "fst (create sample ''type Query { me: String }'' booted) = Inr ()"
    by (simp add: create_eq sample_def)
  have c2: "fst (create sample '''' booted) = Inl (Thrown ''Syntax Error: Unexpected EOF.'')"
    by (simp add: create_eq sample_def)
  have c3: "fst (create sample ''type Query { x: Int }'' booted) =
              Inl (Thrown ''No subgraphs found in the supergraph.'')"
    by (simp add: create_eq sample_def)
  from conjunct2 [OF conjunct2 [OF create_envelope
         [where L = sample and s = booted and S = "''type Query { me: String }''" and dn = quiet]]]
       c1 d
  have e1: "delivered (snd (planner_create sample quiet ''type Query { me: String }'' booted)) =
              [\<lparr>Ok = Some Null, Err = None\<rparr>]"
    by (simp add: quiet_def)
  from conjunct2 [OF conjunct2 [OF create_envelope
         [where L = sample and s = booted and S = "''''" and dn = quiet]]]
       c2 d
  have e2: "delivered (snd (planner_create sample quiet '''' booted)) =
              [\<lparr>Ok = None, Err = Some [Thrown ''Syntax Error: Unexpected EOF.'']\<rparr>]"
    by simp
  from conjunct2 [OF conjunct2 [OF create_envelope
         [where L = sample and s = booted and S = "''type Query { x: Int }''" and dn = refusing]]]
       c3 d
  have e3: "delivered (snd (planner_create sample refusing ''type Query { x: Int }'' booted)) =
              [\<lparr>Ok = None, Err = Some [Thrown ''No subgraphs found in the supergraph.'']\<rparr>]"
    by simp
  show ?thesis
    by (rule conjI [OF e1 conjI [OF e2 e3]])
qed

text \<open>
  C6. Every envelope a Create or Plan script hands to \<open>done\<close> has exactly one of
  \<open>Ok\<close> and \<open>Err\<close>, and its \<open>Err\<close> is never the empty list; each script hands over at
  least one. This holds for every host callback, also one that throws.
\<close>

theorem envelopes_well_formed:
  "(\<exists>rs. rs \<noteq> [] \<and> list_all well_formed rs
         \<and> delivered (snd (planner_create L dn S s)) = delivered s @ rs)
   \<and> (\<exists>rs. rs \<noteq> [] \<and> list_all well_formed rs
         \<and> delivered (snd (planner_plan L dn q n s)) = delivered s @ rs)"
proof
  obtain res s1 where c: "create L S s = (res, s1)" by (cases "create L S s")
  with create_delivered [of L S s] have d: "delivered s1 = delivered s" by simp
  from c d show "\<exists>rs. rs \<noteq> [] \<and> list_all well_formed rs
         \<and> delivered (snd (planner_create L dn S s)) = delivered s @ rs"
    by (cases res)
       (simp_all add: planner_create_eq done_cb_def well_formed_def split: option.splits)
next
  obtain res s1 where c: "plan2 L q n s = (res, s1)" by (cases "plan2 L q n s")
  with plan2_delivered [of L q n s] have d: "delivered s1 = delivered s" by simp
  from plan2_returns [of L q n s] c obtain r where
    r: "res = Inr r"
       "(\<exists>es. es \<noteq> [] \<and> r = \<lparr>errors = Some es, data = None\<rparr>) \<or>
        (\<exists>qp. r = \<lparr>errors = None, data = Some qp\<rparr>)"
    by auto
  from c d r show "\<exists>rs. rs \<noteq> [] \<and> list_all well_formed rs
         \<and> delivered (snd (planner_plan L dn q n s)) = delivered s @ rs"
    by (auto simp add: planner_plan_eq done_cb_def well_formed_def Let_def split: option.splits)
qed

text \<open>
  C7. \<open>plan2\<close> leaves \<open>SCHEMA\<close>, \<open>COMPOSED_SCHEMA\<close> and \<open>PLANNER\<close> as they were,
  whatever it returns; it delivers nothing to the host either.
\<close>

theorem plan2_session_unchanged:
  "session (snd (plan2 L operationString operationName s)) = session s
   \<and> delivered (snd (plan2 L operationString operationName s)) = delivered s"
  by (simp add: plan2_eq session_def split: sum.splits option.splits)




text \<open>
  C9. The one-shot \<open>plan\<close> leaves the module globals \<open>SCHEMA\<close>, \<open>COMPOSED_SCHEMA\<close> and
  \<open>PLANNER\<close> as they were: its schema and planner are locals.
\<close>

theorem plan_globals_unchanged:
  "session (snd (plan L schemaString operationString operationName s)) = session s
   \<and> delivered (snd (plan L schemaString operationString operationName s)) = delivered s"
  by (simp add: plan_eq session_def split: sum.splits option.splits)

text \<open>
  C10, as amended. When \<open>plan2\<close> is called before any Create has succeeded, it never
  returns a plan: it returns a non-empty error list, which is either one caught failure
  (at the latest the \<open>TypeError\<close> of reading \<open>buildQueryPlan\<close> from the \<open>undefined\<close>
  \<open>PLANNER\<close>) or the validation errors that \<open>validate\<close> returned. The first envelope
  the Plan script hands to \<open>done\<close> is the \<open>Err\<close> envelope with that list; when \<open>done\<close>
  returns normally on it, it is the only one and the script ends normally.
\<close>

theorem plan2_before_create:
  assumes "never_created L s"
  shows "\<exists>es. es \<noteq> []
            \<and> fst (plan2 L q n s) = Inr \<lparr>errors = Some es, data = None\<rparr>
            \<and> (length es = 1 \<or> (\<exists>doc. parse L q = Inr doc \<and> validate L (SCHEMA s) doc = Inr es))
            \<and> (\<exists>rest. delivered (snd (planner_plan L dn q n s)) =
                         delivered s @ \<lparr>Ok = None, Err = Some es\<rparr> # rest)
            \<and> (dn \<lparr>Ok = None, Err = Some es\<rparr> = None \<longrightarrow>
                 planner_plan L dn q n s =
                   (Inr (), (snd (plan2 L q n s))
                              \<lparr>delivered := delivered s @ [\<lparr>Ok = None, Err = Some es\<rparr>]\<rparr>))"
proof -
  from assms have "PLANNER s = None" by (rule never_created_planner)
  from plan2_without_planner [OF this, of L q n] obtain es where
    es: "es \<noteq> []" "fst (plan2 L q n s) = Inr \<lparr>errors = Some es, data = None\<rparr>"
        "length es = 1 \<or> (\<exists>doc. parse L q = Inr doc \<and> validate L (SCHEMA s) doc = Inr es)"
    by blast
  obtain res s1 where c: "plan2 L q n s = (res, s1)" by (cases "plan2 L q n s")
  with plan2_delivered [of L q n s] have d: "delivered s1 = delivered s" by simp
  from c d es(1,2)
  have first: "\<exists>rest. delivered (snd (planner_plan L dn q n s)) =
                 delivered s @ \<lparr>Ok = None, Err = Some es\<rparr> # rest"
    by (cases "dn \<lparr>Ok = None, Err = Some es\<rparr>")
       (simp_all add: planner_plan_eq done_cb_def Let_def)
  from c d es(1,2)
  have only: "dn \<lparr>Ok = None, Err = Some es\<rparr> = None \<longrightarrow>
                 planner_plan L dn q n s =
                   (Inr (), (snd (plan2 L q n s))
                              \<lparr>delivered := delivered s @ [\<lparr>Ok = None, Err = Some es\<rparr>]\<rparr>)"
    by (simp add: planner_plan_eq)
  show ?thesis
    by (rule exI [of _ es]) (intro conjI es first only)
qed

text \<open>
  The sample library, after a Create that failed in the planner's constructor (the
  \<open>TypeError\<close>) and on a new runtime (\<open>validate\<close> throws).
\<close>

theorem plan2_before_create_witness:
  "never_created sample (snd (create sample ''type Query { x: Int }'' booted))
   \<and> (\<exists>es. es \<noteq> []
         \<and> fst (plan2 sample ''{ me }'' None (snd (create sample ''type Query { x: Int }'' booted))) =
             Inr \<lparr>errors = Some es, data = None\<rparr>)
   \<and> fst (plan2 sample ''{ me }'' None (snd (create sample ''type Query { x: Int }'' booted))) =
       Inr \<lparr>errors = Some [TypeError (cannot_read ''buildQueryPlan'')], data = None\<rparr>
   \<and> fst (plan2 sample ''{ me }'' None booted) =
       Inr \<lparr>errors = Some [Thrown ''Expected undefined to be a GraphQL schema.''], data = None\<rparr>"
proof -
  have f: "fst (create sample ''type Query { x: Int }'' booted) =
             Inl (Thrown ''No subgraphs found in the supergraph.'')"
    by (simp add: create_eq sample_def)
  have b: "never_created sample booted"
    unfolding booted_def by (rule never_created.new_runtime)
  note h = never_created.failed_create [OF b f]
  from plan2_before_create [OF h, of "''{ me }''" None quiet]
  have a: "\<exists>es. es \<noteq> []
         \<and> fst (plan2 sample ''{ me }'' None (snd (create sample ''type Query { x: Int }'' booted))) =
             Inr \<lparr>errors = Some es, data = None\<rparr>"
    by blast
  have v1: "fst (plan2 sample ''{ me }'' None (snd (create sample ''type Query { x: Int }'' booted))) =
       Inr \<lparr>errors = Some [TypeError (cannot_read ''buildQueryPlan'')], data = None\<rparr>"
    by (simp add: plan2_eq create_eq sample_def booted_eq)
  have v2: "fst (plan2 sample ''{ me }'' None booted) =
       Inr \<lparr>errors = Some [Thrown ''Expected undefined to be a GraphQL schema.''], data = None\<rparr>"
    by (simp add: plan2_eq sample_def booted_eq)
  show ?thesis
    by (rule conjI [OF h conjI [OF a conjI [OF v1 v2]]])
qed

text \<open>
  C10 as stated fails: after a Create that failed in the planner's constructor,
  \<open>SCHEMA\<close> is set, and \<open>plan2\<close> on a query with two validation errors returns both;
  the \<open>Err\<close> envelope carries two errors, not one.
\<close>

theorem plan2_before_create_two_errors:
  "fst (create sample ''type Query { x: Int }'' booted) =
     Inl (Thrown ''No subgraphs found in the supergraph.'')
   \<and> fst (plan2 sample ''{ a b }'' None (snd (create sample ''type Query { x: Int }'' booted))) =
       Inr \<lparr>errors = Some [Thrown ''Cannot query field a.'', Thrown ''Cannot query field b.''],
             data = None\<rparr>
   \<and> delivered (snd (planner_plan sample quiet ''{ a b }'' None
                        (snd (create sample ''type Query { x: Int }'' booted)))) =
       [\<lparr>Ok = None,
         Err = Some [Thrown ''Cannot query field a.'', Thrown ''Cannot query field b.'']\<rparr>]"
  by (simp add: planner_plan_eq plan2_eq create_eq sample_def booted_eq quiet_def)

end
